theory Spec2Isabelle
  imports Main "HOL-Library.Sublist"
begin

section \<open>The chat route of pdftochat: data model\<close>

text \<open>
  The route handler \<open>POST\<close> (the second document of \<open>src/app/document/[id]/page.tsx\<close>)
  answers a question about one indexed document. The request body is embedded at the shape
  the handler reads it: \<open>messages\<close> (absent, or a list of turns with a role tag and a text)
  and \<open>chatId\<close> (absent, or a string). Strings are lists of code units. An exception is
  represented by its message, which is all the handler's \<open>catch\<close> looks at.
\<close>

type_synonym exn = string

record raw_message =
  role :: string
  content :: string

record body =
  messages :: "raw_message list option"
  chatId :: "string option"

text \<open>The three message classes of the chain library that the handler instantiates;
  \<open>ChatMessage\<close> carries the content and the role it was given.\<close>

datatype base_message =
    HumanMessage string
  | AIMessage string
  | ChatMessage string string

type_synonym metadata = "(string \<times> string) list"

record document =
  pageContent :: string
  metadata :: metadata

text \<open>The stream handed to the response: the fragments of the whole answer, or the
  fragments produced before the stream fails with an error.\<close>

datatype answer_stream = Fragments "string list" | Interrupted "string list" exn

datatype response =
    PlainResponse nat string
  | JsonResponse nat "(string \<times> string) list"
  | StreamingTextResponse answer_stream "(string \<times> string) list"

text \<open>Every call the handler makes to a collaborator is recorded, in the order of the calls,
  with the arguments that matter downstream.\<close>

datatype event =
    Auth
  | ReqJson
  | ConsoleWarn string
  | NewChatTogetherAI
  | PineconeIndex string
  | NewTogetherAIEmbeddings
  | FromExistingIndex "string option"
  | AsRetriever "string option"
  | CreateHistoryAwareRetriever
  | CreateStuffDocumentsChain
  | CreateRetrievalChain
  | RunnableSequenceFrom
  | Stream "base_message list" string
  | QueryRewriter "base_message list" string
  | SimilaritySearch "string option" string
  | HandleRetrieverEnd "document list"
  | AnswerSynthesizer "document list" "base_message list" string
  | JSONStringify "document list"
  | ToBase64 string
  | NewStreamingTextResponse

text \<open>
  The collaborators of one request. Each field is what the collaborator answers: \<open>Inl\<close> is
  an exception thrown to the caller. \<open>synthesize\<close> answers \<open>Inl\<close> when the model call fails
  before the first fragment, and otherwise the stream, which may still fail later.
  \<open>throws\<close> gives the exception, if any, of the library
  constructors and factories whose result the handler only passes on.
  \<open>stream_awaits_first_chunk\<close> tells whether \<open>await outputChain.stream(...)\<close> settles only
  once the chain has produced its first fragment, so that an earlier failure of the chain
  rejects the call; otherwise such a failure is only seen by the reader of the stream.
\<close>

record env =
  auth :: "exn + string option"
  req_json :: "exn + body"
  PINECONE_INDEX_NAME :: "string option"
  throws :: "event \<Rightarrow> exn option"
  rewrite_query :: "base_message list \<Rightarrow> string \<Rightarrow> exn + string"
  similaritySearch :: "string option \<Rightarrow> string \<Rightarrow> exn + document list"
  synthesize :: "document list \<Rightarrow> base_message list \<Rightarrow> string \<Rightarrow> exn + answer_stream"
  stream_awaits_first_chunk :: bool
  JSON_stringify :: "document list \<Rightarrow> exn + string"
  toBase64 :: "string \<Rightarrow> exn + string"

section \<open>Effects: trace, promise, exceptions\<close>

text \<open>
  The state threaded through the handler: the trace of calls and the promise
  \<open>documentPromise\<close>, unresolved (\<open>None\<close>) or resolved with the documents. A computation
  yields a value, throws, or never settles (\<open>Pending\<close>: an \<open>await\<close> of a promise that is
  never resolved).
\<close>

record state =
  trace :: "event list"
  documentPromise :: "document list option"

datatype 'a completion = Value 'a | Throw exn | Pending

type_synonym 'a comp = "state \<Rightarrow> 'a completion \<times> state"

definition ret :: "'a \<Rightarrow> 'a comp" where
  "ret x st = (Value x, st)"

definition throw :: "exn \<Rightarrow> 'a comp" where
  "throw e st = (Throw e, st)"

definition bnd :: "'a comp \<Rightarrow> ('a \<Rightarrow> 'b comp) \<Rightarrow> 'b comp" where
  "bnd m f st =
     (case m st of
        (Value x, st') \<Rightarrow> f x st'
      | (Throw e, st') \<Rightarrow> (Throw e, st')
      | (Pending, st') \<Rightarrow> (Pending, st'))"

definition log :: "event \<Rightarrow> unit comp" where
  "log ev st = (Value (), st\<lparr>trace := trace st @ [ev]\<rparr>)"

text \<open>A call of a collaborator: recorded, then its answer.\<close>

definition call :: "event \<Rightarrow> exn + 'a \<Rightarrow> 'a comp" where
  "call ev res st =
     (case res of Inl e \<Rightarrow> Throw e | Inr v \<Rightarrow> Value v, st\<lparr>trace := trace st @ [ev]\<rparr>)"

definition construct :: "env \<Rightarrow> event \<Rightarrow> unit comp" where
  "construct env ev =
     call ev (case throws env ev of Some e \<Rightarrow> Inl e | None \<Rightarrow> Inr ())"

text \<open>\<open>resolveWithDocuments\<close> is the promise's \<open>resolve\<close>: only the first call settles it.\<close>

definition resolveWithDocuments :: "document list \<Rightarrow> unit comp" where
  "resolveWithDocuments documents st =
     (Value (),
      st\<lparr>documentPromise :=
           (case documentPromise st of None \<Rightarrow> Some documents | Some d \<Rightarrow> Some d)\<rparr>)"

definition await_documentPromise :: "document list comp" where
  "await_documentPromise st =
     (case documentPromise st of None \<Rightarrow> (Pending, st) | Some d \<Rightarrow> (Value d, st))"

section \<open>The handler's own functions\<close>

text \<open>\<open>v ?? d\<close>: the default \<open>d\<close> when \<open>v\<close> is absent.\<close>

definition nullish :: "'a option \<Rightarrow> 'a \<Rightarrow> 'a" where
  "nullish v d = (case v of None \<Rightarrow> d | Some x \<Rightarrow> x)"

text \<open>\<open>!userId\<close>: an absent or empty user id is falsy.\<close>

definition falsy :: "string option \<Rightarrow> bool" where
  "falsy u = (case u of None \<Rightarrow> True | Some s \<Rightarrow> s = [])"

definition warning :: "string \<Rightarrow> string" where
  "warning r =
     ''Unknown message type passed: \"'' @ r @
     ''\". Falling back to generic message type.''"

text \<open>\<open>formatVercelMessages\<close>: the console warnings it prints and the message it returns.\<close>

definition formatVercelMessages :: "raw_message \<Rightarrow> string list \<times> base_message" where
  "formatVercelMessages message =
     (if role message = ''user'' then ([], HumanMessage (content message))
      else if role message = ''assistant'' then ([], AIMessage (content message))
      else ([warning (role message)], ChatMessage (content message) (role message)))"

text \<open>\<open>messages.slice(0, -1).map(formatVercelMessages)\<close>: every turn but the last.\<close>

definition formattedPrevious :: "raw_message list \<Rightarrow> (string list \<times> base_message) list" where
  "formattedPrevious msgs = map formatVercelMessages (butlast msgs)"

fun log_all :: "string list \<Rightarrow> unit comp" where
  "log_all [] = ret ()"
| "log_all (w # ws) = bnd (log (ConsoleWarn w)) (\<lambda>_. log_all ws)"

text \<open>The entry of the source manifest for one document:
  \<open>{pageContent: doc.pageContent.slice(0, 50) + '...', metadata: doc.metadata}\<close>.\<close>

definition source_entry :: "document \<Rightarrow> document" where
  "source_entry doc =
     \<lparr>pageContent = take 50 (pageContent doc) @ ''...'', metadata = metadata doc\<rparr>"

definition sourceManifest :: "document list \<Rightarrow> document list" where
  "sourceManifest documents = map source_entry documents"

text \<open>\<open>Number.prototype.toString\<close> on a natural number: its decimal digits.\<close>

definition digit_char :: "nat \<Rightarrow> char" where
  "digit_char d = ''0123456789'' ! d"

fun toString :: "nat \<Rightarrow> string" where
  "toString n =
     (if n < 10 then [digit_char n] else toString (n div 10) @ [digit_char (n mod 10)])"

declare toString.simps [simp del]

section \<open>The retrieval chain\<close>

text \<open>
  The chain objects are made by library factories (\<open>createHistoryAwareRetriever\<close>,
  \<open>createStuffDocumentsChain\<close>, \<open>createRetrievalChain\<close>), whose code is not in the
  repository. The handler's comments say what the chain does, and sections 4.2 to 4.5 of the
  specification say the same: it rephrases the question for the retriever, taking the history
  into account; the retriever returns the relevant documents; the answer is made from the
  retrieved documents. With an empty history the library's history-aware retriever makes no
  model call and gives the question itself to the retriever. The three services are
  parameters of the environment. The retriever is the handler's own
  (\<open>vectorstore.asRetriever\<close> with the handler's callback): it searches the namespace of the
  store and, when the search succeeds, calls \<open>handleRetrieverEnd\<close>, which resolves
  \<open>documentPromise\<close>.
\<close>

definition retriever :: "env \<Rightarrow> string option \<Rightarrow> string \<Rightarrow> document list comp" where
  "retriever env namespace query =
     bnd (call (SimilaritySearch namespace query) (similaritySearch env namespace query))
       (\<lambda>documents.
     bnd (log (HandleRetrieverEnd documents)) (\<lambda>_.
     bnd (resolveWithDocuments documents) (\<lambda>_.
     ret documents)))"

definition historyAwareRetrieverChain ::
    "env \<Rightarrow> string option \<Rightarrow> base_message list \<Rightarrow> string \<Rightarrow> document list comp" where
  "historyAwareRetrieverChain env namespace chat_history input =
     (if chat_history = [] then retriever env namespace input
      else
        bnd (call (QueryRewriter chat_history input) (rewrite_query env chat_history input))
          (\<lambda>query.
        retriever env namespace query))"

definition conversationalRetrievalChain ::
    "env \<Rightarrow> string option \<Rightarrow> base_message list \<Rightarrow> string \<Rightarrow> answer_stream comp" where
  "conversationalRetrievalChain env namespace chat_history input =
     bnd (historyAwareRetrieverChain env namespace chat_history input) (\<lambda>documents.
     call (AnswerSynthesizer documents chat_history input)
       (synthesize env documents chat_history input))"

text \<open>\<open>await outputChain.stream(...)\<close>: the chain runs; a failure of the chain rejects the
  call when the library awaits the first fragment, and is left in the stream otherwise.\<close>

definition outputChain_stream ::
    "env \<Rightarrow> string option \<Rightarrow> base_message list \<Rightarrow> string \<Rightarrow> answer_stream comp" where
  "outputChain_stream env namespace chat_history input st =
     (case bnd (log (Stream chat_history input))
             (\<lambda>_. conversationalRetrievalChain env namespace chat_history input) st of
        (Value stream, st') \<Rightarrow> (Value stream, st')
      | (Throw e, st') \<Rightarrow>
          (if stream_awaits_first_chunk env then (Throw e, st')
           else (Value (Interrupted [] e), st'))
      | (Pending, st') \<Rightarrow> (Pending, st'))"

section \<open>The handler\<close>

text \<open>The body of the \<open>try\<close> block of \<open>POST\<close>, statement by statement.\<close>

definition POST_try :: "env \<Rightarrow> response comp" where
  "POST_try env =
     bnd (call Auth (auth env)) (\<lambda>userId.
     if falsy userId then ret (PlainResponse 401 ''Unauthorized'') else
     bnd (call ReqJson (req_json env)) (\<lambda>body.
     let msgs = nullish (messages body) [] in
     if length msgs = 0 then throw ''No messages provided.'' else
     let formatted = formattedPrevious msgs;
         formattedPreviousMessages = map snd formatted;
         currentMessageContent = content (last msgs);
         chatId = chatId body
     in
     bnd (log_all (concat (map fst formatted))) (\<lambda>_.
     bnd (construct env NewChatTogetherAI) (\<lambda>_.
     bnd (construct env (PineconeIndex (nullish (PINECONE_INDEX_NAME env) []))) (\<lambda>_.
     bnd (construct env NewTogetherAIEmbeddings) (\<lambda>_.
     bnd (construct env (FromExistingIndex chatId)) (\<lambda>_.
     bnd (construct env (AsRetriever chatId)) (\<lambda>_.
     bnd (construct env CreateHistoryAwareRetriever) (\<lambda>_.
     bnd (construct env CreateStuffDocumentsChain) (\<lambda>_.
     bnd (construct env CreateRetrievalChain) (\<lambda>_.
     bnd (construct env RunnableSequenceFrom) (\<lambda>_.
     bnd (outputChain_stream env chatId formattedPreviousMessages currentMessageContent)
       (\<lambda>stream.
     bnd await_documentPromise (\<lambda>documents.
     bnd (call (JSONStringify (sourceManifest documents))
            (JSON_stringify env (sourceManifest documents))) (\<lambda>json.
     bnd (call (ToBase64 json) (toBase64 env json)) (\<lambda>serializedSources.
     bnd (construct env NewStreamingTextResponse) (\<lambda>_.
     ret (StreamingTextResponse stream
            [(''x-message-index'', toString (length formattedPreviousMessages + 1)),
             (''x-sources'', serializedSources)]))))))))))))))))))"

definition init :: state where
  "init = \<lparr>trace = [], documentPromise = None\<rparr>"

text \<open>
  \<open>POST\<close>: the \<open>try\<close> block with its \<open>catch\<close>, which answers
  \<open>NextResponse.json({ error: e.message }, { status: 500 })\<close>. The result is the response,
  or \<open>None\<close> when the handler never returns, together with the trace of the calls made.
\<close>

definition POST :: "env \<Rightarrow> response option \<times> event list" where
  "POST env =
     (case POST_try env init of
        (Value r, st) \<Rightarrow> (Some r, trace st)
      | (Throw e, st) \<Rightarrow> (Some (JsonResponse 500 [(''error'', e)]), trace st)
      | (Pending, st) \<Rightarrow> (None, trace st))"

section \<open>Reading a run\<close>

text \<open>What the statements below read off a trace or a response: the calls proper (console
  warnings left out), the namespaces that the store, the retriever and the searches were
  given, the document lists handed to \<open>handleRetrieverEnd\<close>, the status of a response,
  and the number a decimal header denotes.\<close>

fun is_call :: "event \<Rightarrow> bool" where
  "is_call (ConsoleWarn w) = False"
| "is_call ev = True"

fun namespace_of :: "event \<Rightarrow> string option list" where
  "namespace_of (FromExistingIndex ns) = [ns]"
| "namespace_of (AsRetriever ns) = [ns]"
| "namespace_of (SimilaritySearch ns q) = [ns]"
| "namespace_of ev = []"

definition namespaces :: "event list \<Rightarrow> string option list" where
  "namespaces tr = concat (map namespace_of tr)"

fun retrieved_of :: "event \<Rightarrow> document list list" where
  "retrieved_of (HandleRetrieverEnd documents) = [documents]"
| "retrieved_of ev = []"

definition retrieved :: "event list \<Rightarrow> document list list" where
  "retrieved tr = concat (map retrieved_of tr)"

fun status :: "response \<Rightarrow> nat" where
  "status (PlainResponse st b) = st"
| "status (JsonResponse st b) = st"
| "status (StreamingTextResponse s hdrs) = 200"

definition digit_val :: "char \<Rightarrow> nat" where
  "digit_val c = of_char c - 48"

definition parseInt :: "string \<Rightarrow> nat" where
  "parseInt s = foldl (\<lambda>a c. 10 * a + digit_val c) 0 s"

text \<open>The history and the question the handler gives the chain for a body, and the query
  the chain gives the retriever: the question itself when the history is empty, the answer of
  the query rewriter otherwise.\<close>

definition history_of :: "body \<Rightarrow> base_message list" where
  "history_of b = map snd (formattedPrevious (nullish (messages b) []))"

definition input_of :: "body \<Rightarrow> string" where
  "input_of b = content (last (nullish (messages b) []))"

definition query_for :: "env \<Rightarrow> body \<Rightarrow> exn + string" where
  "query_for env b =
     (if history_of b = [] then Inr (input_of b)
      else rewrite_query env (history_of b) (input_of b))"

text \<open>The calls up to the call of the chain, and the trace of a run that takes every step of
  the handler, for the body \<open>b\<close>, the query \<open>q\<close>, the documents \<open>docs\<close> found and the
  manifest's JSON text.\<close>

definition setup_trace :: "env \<Rightarrow> body \<Rightarrow> event list" where
  "setup_trace env b =
     [Auth, ReqJson] @
     map ConsoleWarn (concat (map fst (formattedPrevious (nullish (messages b) [])))) @
     [NewChatTogetherAI, PineconeIndex (nullish (PINECONE_INDEX_NAME env) []),
      NewTogetherAIEmbeddings, FromExistingIndex (chatId b), AsRetriever (chatId b),
      CreateHistoryAwareRetriever, CreateStuffDocumentsChain, CreateRetrievalChain,
      RunnableSequenceFrom, Stream (history_of b) (input_of b)]"

definition complete_trace :: "env \<Rightarrow> body \<Rightarrow> string \<Rightarrow> document list \<Rightarrow> string \<Rightarrow> event list" where
  "complete_trace env b q docs json =
     setup_trace env b @
     (if history_of b = [] then [] else [QueryRewriter (history_of b) (input_of b)]) @
     [SimilaritySearch (chatId b) q, HandleRetrieverEnd docs,
      AnswerSynthesizer docs (history_of b) (input_of b),
      JSONStringify (sourceManifest docs), ToBase64 json, NewStreamingTextResponse]"

section \<open>An example request\<close>

text \<open>A conversation of four turns about the document indexed under \<open>doc42\<close>. The
  collaborators of the example are stand-ins: the index holds two chunks under \<open>doc42\<close> and
  one elsewhere, and the two encoders are arbitrary functions.\<close>

definition example_docs :: "document list" where
  "example_docs =
     [\<lparr>pageContent = ''This Agreement is made between Acme Corporation and Bolt Industries.'',
       metadata = [(''page'', ''1'')]\<rparr>,
      \<lparr>pageContent = ''Clause 9: notice.'', metadata = [(''page'', ''4'')]\<rparr>]"

definition other_doc :: document where
  "other_doc =
     \<lparr>pageContent = ''Minutes of the board meeting.'', metadata = [(''page'', ''2'')]\<rparr>"

definition example_index :: "string option \<Rightarrow> document set" where
  "example_index ns = (if ns = Some ''doc42'' then set example_docs else {other_doc})"

definition example_messages :: "raw_message list" where
  "example_messages =
     [\<lparr>role = ''user'', content = ''What is this case about?''\<rparr>,
      \<lparr>role = ''assistant'', content = ''It concerns a contract dispute.''\<rparr>,
      \<lparr>role = ''system'', content = ''Be brief.''\<rparr>,
      \<lparr>role = ''user'', content = ''Who are the parties?''\<rparr>]"

definition example_history :: "base_message list" where
  "example_history =
     [HumanMessage ''What is this case about?'',
      AIMessage ''It concerns a contract dispute.'',
      ChatMessage ''Be brief.'' ''system'']"

definition example_body :: body where
  "example_body = \<lparr>messages = Some example_messages, chatId = Some ''doc42''\<rparr>"

definition example_env :: env where
  "example_env =
     \<lparr>auth = Inr (Some ''user_1''),
      req_json = Inr example_body,
      PINECONE_INDEX_NAME = Some ''pdfs'',
      throws = (\<lambda>ev. None),
      rewrite_query = (\<lambda>h q. Inr ''parties of the contract dispute''),
      similaritySearch =
        (\<lambda>ns q. Inr (if ns = Some ''doc42'' then example_docs else [other_doc])),
      synthesize = (\<lambda>d h q. Inr (Fragments [''## Parties'', '' Acme and Bolt''])),
      stream_awaits_first_chunk = True,
      JSON_stringify = (\<lambda>ds. Inr (concat (map pageContent ds))),
      toBase64 = (\<lambda>s. Inr (rev s))\<rparr>"

text \<open>The same request from a caller who is not signed in; with no turns; with the
  index unreachable, thrown at the call of the chain or left in the stream; with a model
  that fails after the first fragment; with no \<open>chatId\<close>; and a first question, with no
  history and no \<open>chatId\<close>.\<close>

definition anonymous_env :: env where
  "anonymous_env = example_env\<lparr>auth := Inr None\<rparr>"

definition empty_env :: env where
  "empty_env = example_env\<lparr>req_json := Inr (example_body\<lparr>messages := Some []\<rparr>)\<rparr>"

definition unreachable_env :: env where
  "unreachable_env = example_env\<lparr>similaritySearch := (\<lambda>ns q. Inl ''index unreachable'')\<rparr>"

definition lazy_unreachable_env :: env where
  "lazy_unreachable_env = unreachable_env\<lparr>stream_awaits_first_chunk := False\<rparr>"

definition interrupted_env :: env where
  "interrupted_env =
     example_env\<lparr>synthesize :=
       (\<lambda>d h q. Inr (Interrupted [''## Par''] ''model connection lost''))\<rparr>"

definition first_question_env :: env where
  "first_question_env =
     example_env\<lparr>req_json :=
       Inr \<lparr>messages = Some [\<lparr>role = ''user'', content = ''Who are the parties?''\<rparr>],
            chatId = None\<rparr>\<rparr>"

definition no_chatId_env :: env where
  "no_chatId_env = example_env\<lparr>req_json := Inr (example_body\<lparr>chatId := None\<rparr>)\<rparr>"

section \<open>Running the handler\<close>

lemma nullish_simps [simp]: "nullish None d = d" "nullish (Some x) d = x"
  by (simp_all add: nullish_def)

lemma log_all_run: "log_all ws st = (Value (), st\<lparr>trace := trace st @ map ConsoleWarn ws\<rparr>)"
  by (induction ws arbitrary: st) (simp_all add: ret_def bnd_def log_def)

lemma construct_run:
  "construct env ev st =
     (case throws env ev of Some e \<Rightarrow> Throw e | None \<Rightarrow> Value (),
      st\<lparr>trace := trace st @ [ev]\<rparr>)"
  by (simp add: construct_def call_def split: option.splits)

lemmas run_defs =
  POST_def POST_try_def bnd_def call_def construct_run log_all_run ret_def throw_def init_def
  outputChain_stream_def conversationalRetrievalChain_def historyAwareRetrieverChain_def
  retriever_def log_def
  resolveWithDocuments_def await_documentPromise_def Let_def

lemmas trace_defs =
  complete_trace_def setup_trace_def history_of_def input_of_def query_for_def

lemma calls_ConsoleWarn [simp]: "filter is_call (map ConsoleWarn ws) = []"
  by (induction ws) simp_all

lemma namespaces_ConsoleWarn [simp]: "concat (map namespace_of (map ConsoleWarn ws)) = []"
  by (induction ws) simp_all

lemma retrieved_ConsoleWarn [simp]: "concat (map retrieved_of (map ConsoleWarn ws)) = []"
  by (induction ws) simp_all

lemma in_namespaces:
  "FromExistingIndex ns \<in> set tr \<or> AsRetriever ns \<in> set tr \<or> SimilaritySearch ns q \<in> set tr
   \<Longrightarrow> ns \<in> set (namespaces tr)"
  by (induction tr) (auto simp: namespaces_def)

lemma in_retrieved: "HandleRetrieverEnd docs \<in> set tr \<Longrightarrow> docs \<in> set (retrieved tr)"
  by (induction tr) (auto simp: retrieved_def)

text \<open>A run that answers with the stream took every step of the \<open>try\<close> block.\<close>

lemma POST_streaming_run:
  assumes "POST env = (Some (StreamingTextResponse s hdrs), tr)"
  obtains u b q docs json src where
    "auth env = Inr u" and "\<not> falsy u" and "req_json env = Inr b" and
    "nullish (messages b) [] \<noteq> []" and
    "query_for env b = Inr q" and
    "similaritySearch env (chatId b) q = Inr docs" and
    "JSON_stringify env (sourceManifest docs) = Inr json" and
    "toBase64 env json = Inr src" and
    "hdrs = [(''x-message-index'',
              toString (length (formattedPrevious (nullish (messages b) [])) + 1)),
             (''x-sources'', src)]" and
    "tr = complete_trace env b q docs json"
proof -
  have "\<exists>u b q docs json src.
           auth env = Inr u \<and> \<not> falsy u \<and> req_json env = Inr b \<and>
           nullish (messages b) [] \<noteq> [] \<and>
           query_for env b = Inr q \<and>
           similaritySearch env (chatId b) q = Inr docs \<and>
           JSON_stringify env (sourceManifest docs) = Inr json \<and>
           toBase64 env json = Inr src \<and>
           hdrs = [(''x-message-index'',
                    toString (length (formattedPrevious (nullish (messages b) [])) + 1)),
                   (''x-sources'', src)] \<and>
           tr = complete_trace env b q docs json"
    using assms
    by (simp add: run_defs trace_defs
        split: sum.splits option.splits completion.splits if_split_asm prod.splits
        split del: if_split)
  then show thesis
    by (elim exE conjE) (rule that)
qed

text \<open>On every path the namespaces used are the request's \<open>chatId\<close>, the documents handed
  to the callback are an answer of the search in that namespace, and no call is made twice.\<close>

lemma namespaces_ConsoleWarn_comp [simp]:
  "concat (map (namespace_of \<circ> ConsoleWarn) ws) = []"
  by (induction ws) simp_all

lemma retrieved_ConsoleWarn_comp [simp]:
  "concat (map (retrieved_of \<circ> ConsoleWarn) ws) = []"
  by (induction ws) simp_all

lemma POST_all_paths:
  assumes "POST env = (r, tr)"
  shows "distinct (filter is_call tr) \<and>
         (\<forall>b. req_json env = Inr b \<longrightarrow>
            list_all (\<lambda>ns. ns = chatId b) (namespaces tr) \<and>
            list_all (\<lambda>docs. \<exists>q. similaritySearch env (chatId b) q = Inr docs)
              (retrieved tr))"
  using assms
  by (clarsimp simp add: run_defs namespaces_def retrieved_def
      split: sum.splits option.splits completion.splits prod.splits if_splits) blast+

lemma POST_calls_distinct:
  assumes "POST env = (r, tr)"
  shows "distinct (filter is_call tr)"
  using POST_all_paths [OF assms] by simp

lemma POST_namespaces:
  assumes "req_json env = Inr b"
  shows "set (namespaces (snd (POST env))) \<subseteq> {chatId b}"
proof -
  have "POST env = (fst (POST env), snd (POST env))"
    by simp
  from POST_all_paths [OF this] assms show ?thesis
    by (auto simp: list_all_iff)
qed

lemma POST_retrieved:
  assumes "req_json env = Inr b"
  shows "\<forall>docs \<in> set (retrieved (snd (POST env))).
           \<exists>q. similaritySearch env (chatId b) q = Inr docs"
proof -
  have "POST env = (fst (POST env), snd (POST env))"
    by simp
  from POST_all_paths [OF this] assms show ?thesis
    by (simp add: list_all_iff)
qed

subsection \<open>The example runs\<close>

lemma example_formatted:
  "formattedPrevious example_messages =
     [([], HumanMessage ''What is this case about?''),
      ([], AIMessage ''It concerns a contract dispute.''),
      ([warning ''system''], ChatMessage ''Be brief.'' ''system'')]"
  by (simp add: formattedPrevious_def formatVercelMessages_def example_messages_def)

lemma example_last: "content (last example_messages) = ''Who are the parties?''"
  by (simp add: example_messages_def)

lemma example_nonempty: "example_messages \<noteq> []"
  by (simp add: example_messages_def)

lemma toString_4: "toString (Suc (Suc (Suc (Suc 0)))) = ''4''"
proof -
  have "toString 4 = ''4''"
    by (simp add: toString.simps digit_char_def)
  moreover have "toString (Suc (Suc (Suc (Suc 0)))) = toString 4"
    by (rule arg_cong [where f = toString]) simp
  ultimately show ?thesis by simp
qed

lemma toString_1: "toString (Suc 0) = ''1''"
  by (simp add: toString.simps digit_char_def)

lemmas example_defs =
  example_env_def example_body_def falsy_def example_formatted example_last example_nonempty
  example_history_def toString_4

lemma example_run:
  "POST example_env =
     (Some (StreamingTextResponse (Fragments [''## Parties'', '' Acme and Bolt''])
        [(''x-message-index'', ''4''),
         (''x-sources'', rev (concat (map pageContent (sourceManifest example_docs))))]),
      [Auth, ReqJson, ConsoleWarn (warning ''system''),
       NewChatTogetherAI, PineconeIndex ''pdfs'', NewTogetherAIEmbeddings,
       FromExistingIndex (Some ''doc42''), AsRetriever (Some ''doc42''),
       CreateHistoryAwareRetriever, CreateStuffDocumentsChain, CreateRetrievalChain,
       RunnableSequenceFrom,
       Stream example_history ''Who are the parties?'',
       QueryRewriter example_history ''Who are the parties?'',
       SimilaritySearch (Some ''doc42'') ''parties of the contract dispute'',
       HandleRetrieverEnd example_docs,
       AnswerSynthesizer example_docs example_history ''Who are the parties?'',
       JSONStringify (sourceManifest example_docs),
       ToBase64 (concat (map pageContent (sourceManifest example_docs))),
       NewStreamingTextResponse])"
  by (simp add: run_defs example_defs)

lemma anonymous_run:
  "POST anonymous_env = (Some (PlainResponse 401 ''Unauthorized''), [Auth])"
  by (simp add: run_defs anonymous_env_def example_defs)

lemma empty_run:
  "POST empty_env =
     (Some (JsonResponse 500 [(''error'', ''No messages provided.'')]), [Auth, ReqJson])"
  by (simp add: run_defs empty_env_def example_defs)

lemma unreachable_try:
  "POST_try unreachable_env init =
     (Throw ''index unreachable'',
      \<lparr>trace =
         [Auth, ReqJson, ConsoleWarn (warning ''system''),
          NewChatTogetherAI, PineconeIndex ''pdfs'', NewTogetherAIEmbeddings,
          FromExistingIndex (Some ''doc42''), AsRetriever (Some ''doc42''),
          CreateHistoryAwareRetriever, CreateStuffDocumentsChain, CreateRetrievalChain,
          RunnableSequenceFrom,
          Stream example_history ''Who are the parties?'',
          QueryRewriter example_history ''Who are the parties?'',
          SimilaritySearch (Some ''doc42'') ''parties of the contract dispute''],
       documentPromise = None\<rparr>)"
  by (simp add: run_defs unreachable_env_def example_defs)

subsection \<open>Decimal headers\<close>

lemma digit_val_digit_char: "d < 10 \<Longrightarrow> digit_val (digit_char d) = d"
proof -
  assume "d < 10"
  then have "d \<in> {0, 1, 2, 3, 4, 5, 6, 7, 8, 9}" by auto
  then show ?thesis
    by (auto simp: digit_val_def digit_char_def)
qed

lemma parseInt_toString: "parseInt (toString n) = n"
proof (induction n rule: toString.induct)
  case (1 n)
  show ?case
  proof (cases "n < 10")
    case True
    then show ?thesis
      by (simp add: toString.simps [of n] parseInt_def digit_val_digit_char)
  next
    case False
    with 1 have "parseInt (toString (n div 10)) = n div 10" by simp
    with False show ?thesis
      by (simp add: toString.simps [of n] parseInt_def digit_val_digit_char)
  qed
qed

section \<open>Retrieval, manifest and response\<close>

text \<open>
  C1. Whenever the handler answers with the streaming response, the retriever's callback
  has handed over the documents before, the manifest of exactly these documents has been
  serialised after that, and the response is constructed last, once, with the serialised
  manifest as its \<open>x-sources\<close> header.
\<close>

theorem retrieval_precedes_response:
  assumes "POST env = (Some (StreamingTextResponse s hdrs), tr)"
  shows "\<exists>pre docs mid json src.
           tr = pre @ [HandleRetrieverEnd docs] @ mid @
                [JSONStringify (sourceManifest docs), ToBase64 json, NewStreamingTextResponse] \<and>
           NewStreamingTextResponse \<notin> set pre \<union> set mid \<and>
           retrieved tr = [docs] \<and>
           JSON_stringify env (sourceManifest docs) = Inr json \<and>
           toBase64 env json = Inr src \<and>
           map_of hdrs ''x-sources'' = Some src"
proof -
  from assms obtain b q docs json src where
    js: "JSON_stringify env (sourceManifest docs) = Inr json" and
    b64: "toBase64 env json = Inr src" and
    hdrs: "hdrs = [(''x-message-index'',
                    toString (length (formattedPrevious (nullish (messages b) [])) + 1)),
                   (''x-sources'', src)]" and
    tr: "tr = complete_trace env b q docs json"
    by (rule POST_streaming_run)
  let ?pre = "setup_trace env b @
                (if history_of b = [] then [] else [QueryRewriter (history_of b) (input_of b)]) @
                [SimilaritySearch (chatId b) q]"
  let ?mid = "[AnswerSynthesizer docs (history_of b) (input_of b)]"
  have "tr = ?pre @ [HandleRetrieverEnd docs] @ ?mid @
          [JSONStringify (sourceManifest docs), ToBase64 json, NewStreamingTextResponse]"
    by (simp add: tr complete_trace_def)
  moreover have "NewStreamingTextResponse \<notin> set ?pre \<union> set ?mid"
    by (auto simp: setup_trace_def)
  moreover have "retrieved tr = [docs]"
    by (simp add: tr complete_trace_def setup_trace_def retrieved_def)
  moreover have "map_of hdrs ''x-sources'' = Some src"
    by (simp add: hdrs)
  ultimately show ?thesis
    using js b64 by blast
qed

theorem retrieval_precedes_response_witness:
  "\<exists>pre docs mid json src.
     snd (POST example_env) = pre @ [HandleRetrieverEnd docs] @ mid @
       [JSONStringify (sourceManifest docs), ToBase64 json, NewStreamingTextResponse] \<and>
     NewStreamingTextResponse \<notin> set pre \<union> set mid \<and>
     retrieved (snd (POST example_env)) = [docs] \<and>
     JSON_stringify example_env (sourceManifest docs) = Inr json \<and>
     toBase64 example_env json = Inr src \<and>
     map_of [(''x-message-index'', ''4''),
             (''x-sources'', rev (concat (map pageContent (sourceManifest example_docs))))]
       ''x-sources'' = Some src"
proof -
  have "POST example_env =
     (Some (StreamingTextResponse (Fragments [''## Parties'', '' Acme and Bolt''])
        [(''x-message-index'', ''4''),
         (''x-sources'', rev (concat (map pageContent (sourceManifest example_docs))))]),
      snd (POST example_env))"
    by (simp add: example_run)
  then show ?thesis
    by (rule retrieval_precedes_response)
qed

text \<open>
  C2. For a request with \<open>chatId = X\<close>, the store, the retriever and every search of the run
  are given the namespace \<open>X\<close>; and when the search service answers a search in a namespace
  only with chunks indexed under that namespace, every chunk handed to the handler is indexed
  under \<open>X\<close>.
\<close>

theorem namespace_isolation:
  assumes "req_json env = Inr b" and "chatId b = Some X" and "POST env = (r, tr)"
    and scoped: "\<And>ns q docs. similaritySearch env ns q = Inr docs \<Longrightarrow> set docs \<subseteq> index ns"
  shows "(\<forall>ns. FromExistingIndex ns \<in> set tr \<longrightarrow> ns = Some X) \<and>
         (\<forall>ns. AsRetriever ns \<in> set tr \<longrightarrow> ns = Some X) \<and>
         (\<forall>ns q. SimilaritySearch ns q \<in> set tr \<longrightarrow> ns = Some X) \<and>
         (\<forall>docs d. HandleRetrieverEnd docs \<in> set tr \<longrightarrow> d \<in> set docs \<longrightarrow> d \<in> index (Some X))"
proof -
  have tr: "tr = snd (POST env)"
    using assms(3) by simp
  have ns: "set (namespaces tr) \<subseteq> {Some X}"
    using POST_namespaces [OF assms(1)] assms(2) tr by simp
  have "ns = Some X" if "ns \<in> set (namespaces tr)" for ns
    using ns that by auto
  then have a: "\<forall>ns. FromExistingIndex ns \<in> set tr \<longrightarrow> ns = Some X"
    and b: "\<forall>ns. AsRetriever ns \<in> set tr \<longrightarrow> ns = Some X"
    and c: "\<forall>ns q. SimilaritySearch ns q \<in> set tr \<longrightarrow> ns = Some X"
    using in_namespaces [of _ tr] by blast+
  have d: "\<forall>docs d. HandleRetrieverEnd docs \<in> set tr \<longrightarrow> d \<in> set docs \<longrightarrow> d \<in> index (Some X)"
  proof (intro allI impI)
    fix docs d
    assume "HandleRetrieverEnd docs \<in> set tr" and d: "d \<in> set docs"
    then have "docs \<in> set (retrieved (snd (POST env)))"
      using in_retrieved tr by simp
    with POST_retrieved [OF assms(1)] assms(2)
    obtain q where "similaritySearch env (Some X) q = Inr docs"
      by auto
    from scoped [OF this] d show "d \<in> index (Some X)"
      by auto
  qed
  from a b c d show ?thesis
    by blast
qed

theorem namespace_isolation_witness:
  "req_json example_env = Inr example_body \<and> chatId example_body = Some ''doc42'' \<and>
   FromExistingIndex (Some ''doc42'') \<in> set (snd (POST example_env)) \<and>
   SimilaritySearch (Some ''doc42'') ''parties of the contract dispute''
     \<in> set (snd (POST example_env)) \<and>
   HandleRetrieverEnd example_docs \<in> set (snd (POST example_env)) \<and>
   set example_docs \<subseteq> example_index (Some ''doc42'') \<and>
   other_doc \<notin> example_index (Some ''doc42'')"
proof -
  have b: "req_json example_env = Inr example_body"
    by (simp add: example_env_def)
  have c: "chatId example_body = Some ''doc42''"
    by (simp add: example_body_def)
  have r: "POST example_env = (fst (POST example_env), snd (POST example_env))"
    by simp
  have scoped: "set docs \<subseteq> example_index ns"
    if "similaritySearch example_env ns q = Inr docs" for ns q docs
    using that by (auto simp: example_env_def example_index_def split: if_splits)
  have iso: "\<forall>docs d. HandleRetrieverEnd docs \<in> set (snd (POST example_env)) \<longrightarrow>
               d \<in> set docs \<longrightarrow> d \<in> example_index (Some ''doc42'')"
    by (rule namespace_isolation [where index = example_index, OF b c r,
          THEN conjunct2, THEN conjunct2, THEN conjunct2])
       (rule scoped)
  have mem: "HandleRetrieverEnd example_docs \<in> set (snd (POST example_env))"
    "FromExistingIndex (Some ''doc42'') \<in> set (snd (POST example_env))"
    "SimilaritySearch (Some ''doc42'') ''parties of the contract dispute''
       \<in> set (snd (POST example_env))"
    by (simp_all add: example_run)
  from iso mem(1) have "set example_docs \<subseteq> example_index (Some ''doc42'')"
    by blast
  moreover have "other_doc \<notin> example_index (Some ''doc42'')"
    by (simp add: example_index_def example_docs_def other_doc_def)
  ultimately show ?thesis
    using b c mem by simp
qed

text \<open>
  C3. On every answer with the streaming response, the retrieval step handed over one list
  of documents; the manifest that is serialised into the \<open>x-sources\<close> header has one entry
  per document, and its i-th entry is made from the i-th document.
\<close>

theorem manifest_follows_retrieval:
  assumes "POST env = (Some (StreamingTextResponse s hdrs), tr)"
  shows "\<exists>docs json src.
           retrieved tr = [docs] \<and>
           JSONStringify (sourceManifest docs) \<in> set tr \<and>
           JSON_stringify env (sourceManifest docs) = Inr json \<and>
           toBase64 env json = Inr src \<and>
           map_of hdrs ''x-sources'' = Some src \<and>
           length (sourceManifest docs) = length docs \<and>
           (\<forall>i<length docs. sourceManifest docs ! i = source_entry (docs ! i))"
proof -
  from assms obtain b q docs json src where
    js: "JSON_stringify env (sourceManifest docs) = Inr json" and
    b64: "toBase64 env json = Inr src" and
    hdrs: "hdrs = [(''x-message-index'',
                    toString (length (formattedPrevious (nullish (messages b) [])) + 1)),
                   (''x-sources'', src)]" and
    tr: "tr = complete_trace env b q docs json"
    by (rule POST_streaming_run)
  have "retrieved tr = [docs]"
    by (simp add: tr complete_trace_def setup_trace_def retrieved_def)
  moreover have "JSONStringify (sourceManifest docs) \<in> set tr"
    by (simp add: tr complete_trace_def)
  moreover have "map_of hdrs ''x-sources'' = Some src"
    by (simp add: hdrs)
  moreover have "length (sourceManifest docs) = length docs"
    by (simp add: sourceManifest_def)
  moreover have "\<forall>i<length docs. sourceManifest docs ! i = source_entry (docs ! i)"
    by (simp add: sourceManifest_def)
  ultimately show ?thesis
    using js b64 by blast
qed

theorem manifest_follows_retrieval_witness:
  "\<exists>docs json src.
     retrieved (snd (POST example_env)) = [docs] \<and>
     JSONStringify (sourceManifest docs) \<in> set (snd (POST example_env)) \<and>
     JSON_stringify example_env (sourceManifest docs) = Inr json \<and>
     toBase64 example_env json = Inr src \<and>
     map_of [(''x-message-index'', ''4''),
             (''x-sources'', rev (concat (map pageContent (sourceManifest example_docs))))]
       ''x-sources'' = Some src \<and>
     length (sourceManifest docs) = length docs \<and>
     (\<forall>i<length docs. sourceManifest docs ! i = source_entry (docs ! i))"
proof -
  have "POST example_env =
     (Some (StreamingTextResponse (Fragments [''## Parties'', '' Acme and Bolt''])
        [(''x-message-index'', ''4''),
         (''x-sources'', rev (concat (map pageContent (sourceManifest example_docs))))]),
      snd (POST example_env))"
    by (simp add: example_run)
  then show ?thesis
    by (rule manifest_follows_retrieval)
qed

text \<open>
  C4. The excerpt of a manifest entry is the first 50 characters of the chunk's
  content (all of it when it is shorter) followed by the marker \<open>...\<close>: it has at most 50
  characters plus the marker, and the part before the marker is a prefix of the content. The
  metadata is the chunk's.
\<close>

theorem excerpt_truncated:
  "\<forall>i<length docs.
     pageContent (sourceManifest docs ! i) = take 50 (pageContent (docs ! i)) @ ''...'' \<and>
     length (pageContent (sourceManifest docs ! i)) \<le> 50 + length ''...'' \<and>
     prefix (take 50 (pageContent (docs ! i))) (pageContent (docs ! i)) \<and>
     metadata (sourceManifest docs ! i) = metadata (docs ! i)"
  by (simp add: sourceManifest_def source_entry_def take_is_prefix)

theorem excerpt_truncated_witness:
  "pageContent (sourceManifest example_docs ! 0) =
     ''This Agreement is made between Acme Corporation an...'' \<and>
   length (pageContent (sourceManifest example_docs ! 0)) \<le> 50 + length ''...'' \<and>
   prefix (take 50 (pageContent (example_docs ! 0))) (pageContent (example_docs ! 0)) \<and>
   metadata (sourceManifest example_docs ! 0) = [(''page'', ''1'')]"
proof -
  have "0 < length example_docs"
    by (simp add: example_docs_def)
  with excerpt_truncated [of example_docs] have
    "pageContent (sourceManifest example_docs ! 0) =
       take 50 (pageContent (example_docs ! 0)) @ ''...'' \<and>
     length (pageContent (sourceManifest example_docs ! 0)) \<le> 50 + length ''...'' \<and>
     prefix (take 50 (pageContent (example_docs ! 0))) (pageContent (example_docs ! 0)) \<and>
     metadata (sourceManifest example_docs ! 0) = metadata (example_docs ! 0)"
    by blast
  then show ?thesis
    by (simp add: example_docs_def)
qed

text \<open>The excerpt itself, marker included, is not a prefix of the content: the second chunk
  of the example is shorter than 50 characters and its excerpt is longer than it.\<close>

theorem excerpt_not_prefix_counterexample:
  "pageContent (sourceManifest example_docs ! 1) = ''Clause 9: notice....'' \<and>
   pageContent (example_docs ! 1) = ''Clause 9: notice.'' \<and>
   \<not> prefix (pageContent (sourceManifest example_docs ! 1)) (pageContent (example_docs ! 1))"
  by (simp add: sourceManifest_def source_entry_def example_docs_def)

section \<open>Refusals and failures\<close>

text \<open>
  C5. For a caller who is not signed in the handler answers with status 401 and
  the plain text \<open>Unauthorized\<close> as body, and \<open>auth\<close> is the only call of the run: the body is
  not parsed, and no model, store or retrieval call is made.
\<close>

theorem unauthorized_short_circuit:
  assumes "auth env = Inr u" and "falsy u"
  shows "POST env = (Some (PlainResponse 401 ''Unauthorized''), [Auth])"
  using assms by (simp add: run_defs)

theorem unauthorized_short_circuit_witness:
  "auth anonymous_env = Inr None \<and> falsy None \<and>
   POST anonymous_env = (Some (PlainResponse 401 ''Unauthorized''), [Auth])"
proof -
  have a: "auth anonymous_env = Inr None"
    by (simp add: anonymous_env_def)
  have f: "falsy None"
    by (simp add: falsy_def)
  from unauthorized_short_circuit [OF a f] a f show ?thesis
    by simp
qed

text \<open>The unauthorized response has a body: it is not the response with status 401 and
  an empty body.\<close>

theorem unauthorized_body_counterexample:
  "fst (POST anonymous_env) = Some (PlainResponse 401 ''Unauthorized'') \<and>
   fst (POST anonymous_env) \<noteq> Some (PlainResponse 401 [])"
  by (simp add: anonymous_run)

text \<open>
  C6. For a signed-in caller whose body has no \<open>messages\<close>, or an empty list, the handler
  answers with the structured error \<open>No messages provided.\<close>, and the run has made the calls
  \<open>auth\<close> and \<open>req.json\<close> only: no model, embedding or retrieval call.
\<close>

theorem no_messages_rejected:
  assumes "auth env = Inr u" and "\<not> falsy u" and "req_json env = Inr b"
    and "messages b = None \<or> messages b = Some []"
  shows "POST env =
           (Some (JsonResponse 500 [(''error'', ''No messages provided.'')]), [Auth, ReqJson])"
  using assms by (auto simp add: run_defs)

theorem no_messages_rejected_witness:
  "auth empty_env = Inr (Some ''user_1'') \<and> \<not> falsy (Some ''user_1'') \<and>
   messages (example_body\<lparr>messages := Some []\<rparr>) = Some [] \<and>
   POST empty_env =
     (Some (JsonResponse 500 [(''error'', ''No messages provided.'')]), [Auth, ReqJson])"
proof -
  have a: "auth empty_env = Inr (Some ''user_1'')"
    by (simp add: empty_env_def example_env_def)
  have f: "\<not> falsy (Some ''user_1'')"
    by (simp add: falsy_def)
  have b: "req_json empty_env = Inr (example_body\<lparr>messages := Some []\<rparr>)"
    by (simp add: empty_env_def)
  have m: "messages (example_body\<lparr>messages := Some []\<rparr>) = None \<or>
           messages (example_body\<lparr>messages := Some []\<rparr>) = Some []"
    by simp
  from no_messages_rejected [OF a f b m] a f show ?thesis
    by simp
qed

text \<open>
  C7. For a signed-in caller, a failure that is thrown inside the \<open>try\<close> block is caught and
  answered with the structured body \<open>{ error: message }\<close> and status 500, whatever its kind:
  a body that cannot be parsed, a request without turns, and, when no constructor throws, a
  failure of the query rewriting, of the search or of the start of the answer model that
  rejects the call of the chain, and a failure of either encoder of the manifest. No call of
  a run is made twice.
\<close>

theorem failures_reach_catch:
  assumes "auth env = Inr u" and "\<not> falsy u"
  shows
    "(\<forall>e. req_json env = Inl e \<longrightarrow>
        fst (POST env) = Some (JsonResponse 500 [(''error'', e)])) \<and>
     (\<forall>b. req_json env = Inr b \<and> nullish (messages b) [] = [] \<longrightarrow>
        fst (POST env) = Some (JsonResponse 500 [(''error'', ''No messages provided.'')])) \<and>
     (\<forall>b e. req_json env = Inr b \<and> nullish (messages b) [] \<noteq> [] \<and>
        (\<forall>ev. throws env ev = None) \<and>
        query_for env b = Inl e \<and> stream_awaits_first_chunk env \<longrightarrow>
        fst (POST env) = Some (JsonResponse 500 [(''error'', e)])) \<and>
     (\<forall>b q e. req_json env = Inr b \<and> nullish (messages b) [] \<noteq> [] \<and>
        (\<forall>ev. throws env ev = None) \<and>
        query_for env b = Inr q \<and> similaritySearch env (chatId b) q = Inl e \<and>
        stream_awaits_first_chunk env \<longrightarrow>
        fst (POST env) = Some (JsonResponse 500 [(''error'', e)])) \<and>
     (\<forall>b q docs e. req_json env = Inr b \<and> nullish (messages b) [] \<noteq> [] \<and>
        (\<forall>ev. throws env ev = None) \<and>
        query_for env b = Inr q \<and> similaritySearch env (chatId b) q = Inr docs \<and>
        synthesize env docs (history_of b) (input_of b) = Inl e \<and>
        stream_awaits_first_chunk env \<longrightarrow>
        fst (POST env) = Some (JsonResponse 500 [(''error'', e)])) \<and>
     (\<forall>b q docs stream e. req_json env = Inr b \<and> nullish (messages b) [] \<noteq> [] \<and>
        (\<forall>ev. throws env ev = None) \<and>
        query_for env b = Inr q \<and> similaritySearch env (chatId b) q = Inr docs \<and>
        synthesize env docs (history_of b) (input_of b) = Inr stream \<and>
        JSON_stringify env (sourceManifest docs) = Inl e \<longrightarrow>
        fst (POST env) = Some (JsonResponse 500 [(''error'', e)])) \<and>
     (\<forall>b q docs stream json e. req_json env = Inr b \<and> nullish (messages b) [] \<noteq> [] \<and>
        (\<forall>ev. throws env ev = None) \<and>
        query_for env b = Inr q \<and> similaritySearch env (chatId b) q = Inr docs \<and>
        synthesize env docs (history_of b) (input_of b) = Inr stream \<and>
        JSON_stringify env (sourceManifest docs) = Inr json \<and> toBase64 env json = Inl e \<longrightarrow>
        fst (POST env) = Some (JsonResponse 500 [(''error'', e)])) \<and>
     distinct (filter is_call (snd (POST env)))"
proof (intro conjI allI impI)
  fix e
  assume "req_json env = Inl e"
  with assms show "fst (POST env) = Some (JsonResponse 500 [(''error'', e)])"
    by (simp add: run_defs)
next
  fix b
  assume "req_json env = Inr b \<and> nullish (messages b) [] = []"
  with assms
  show "fst (POST env) = Some (JsonResponse 500 [(''error'', ''No messages provided.'')])"
    by (simp add: run_defs)
next
  fix b e
  assume "req_json env = Inr b \<and> nullish (messages b) [] \<noteq> [] \<and>
        (\<forall>ev. throws env ev = None) \<and>
        query_for env b = Inl e \<and> stream_awaits_first_chunk env"
  with assms show "fst (POST env) = Some (JsonResponse 500 [(''error'', e)])"
    by (clarsimp simp add: run_defs trace_defs split: if_splits)
next
  fix b q e
  assume "req_json env = Inr b \<and> nullish (messages b) [] \<noteq> [] \<and>
        (\<forall>ev. throws env ev = None) \<and>
        query_for env b = Inr q \<and> similaritySearch env (chatId b) q = Inl e \<and>
        stream_awaits_first_chunk env"
  with assms show "fst (POST env) = Some (JsonResponse 500 [(''error'', e)])"
    by (clarsimp simp add: run_defs trace_defs split: if_splits)
next
  fix b q docs e
  assume "req_json env = Inr b \<and> nullish (messages b) [] \<noteq> [] \<and>
        (\<forall>ev. throws env ev = None) \<and>
        query_for env b = Inr q \<and> similaritySearch env (chatId b) q = Inr docs \<and>
        synthesize env docs (history_of b) (input_of b) = Inl e \<and>
        stream_awaits_first_chunk env"
  with assms show "fst (POST env) = Some (JsonResponse 500 [(''error'', e)])"
    by (clarsimp simp add: run_defs trace_defs split: if_splits)
next
  fix b q docs stream e
  assume "req_json env = Inr b \<and> nullish (messages b) [] \<noteq> [] \<and>
        (\<forall>ev. throws env ev = None) \<and>
        query_for env b = Inr q \<and> similaritySearch env (chatId b) q = Inr docs \<and>
        synthesize env docs (history_of b) (input_of b) = Inr stream \<and>
        JSON_stringify env (sourceManifest docs) = Inl e"
  with assms show "fst (POST env) = Some (JsonResponse 500 [(''error'', e)])"
    by (clarsimp simp add: run_defs trace_defs split: if_splits)
next
  fix b q docs stream json e
  assume "req_json env = Inr b \<and> nullish (messages b) [] \<noteq> [] \<and>
        (\<forall>ev. throws env ev = None) \<and>
        query_for env b = Inr q \<and> similaritySearch env (chatId b) q = Inr docs \<and>
        synthesize env docs (history_of b) (input_of b) = Inr stream \<and>
        JSON_stringify env (sourceManifest docs) = Inr json \<and> toBase64 env json = Inl e"
  with assms show "fst (POST env) = Some (JsonResponse 500 [(''error'', e)])"
    by (clarsimp simp add: run_defs trace_defs split: if_splits)
next
  have "POST env = (fst (POST env), snd (POST env))"
    by simp
  then show "distinct (filter is_call (snd (POST env)))"
    by (rule POST_calls_distinct)
qed

lemma POST_catch:
  assumes "POST_try env init = (Throw e, st)"
  shows "POST env = (Some (JsonResponse 500 [(''error'', e)]), trace st)"
  using assms by (simp add: POST_def)

lemma unreachable_run:
  "POST unreachable_env =
     (Some (JsonResponse 500 [(''error'', ''index unreachable'')]),
      [Auth, ReqJson, ConsoleWarn (warning ''system''),
       NewChatTogetherAI, PineconeIndex ''pdfs'', NewTogetherAIEmbeddings,
       FromExistingIndex (Some ''doc42''), AsRetriever (Some ''doc42''),
       CreateHistoryAwareRetriever, CreateStuffDocumentsChain, CreateRetrievalChain,
       RunnableSequenceFrom,
       Stream example_history ''Who are the parties?'',
       QueryRewriter example_history ''Who are the parties?'',
       SimilaritySearch (Some ''doc42'') ''parties of the contract dispute''])"
  using POST_catch [OF unreachable_try] by simp

theorem failures_reach_catch_witness:
  "fst (POST unreachable_env) = Some (JsonResponse 500 [(''error'', ''index unreachable'')]) \<and>
   fst (POST empty_env) = Some (JsonResponse 500 [(''error'', ''No messages provided.'')]) \<and>
   distinct (filter is_call (snd (POST unreachable_env)))"
proof -
  have f: "\<not> falsy (Some ''user_1'')"
    by (simp add: falsy_def)
  have a: "auth unreachable_env = Inr (Some ''user_1'')"
    and b: "req_json unreachable_env = Inr example_body"
    and t: "\<forall>ev. throws unreachable_env ev = None"
    and w: "stream_awaits_first_chunk unreachable_env"
    and s: "similaritySearch unreachable_env (chatId example_body)
              ''parties of the contract dispute'' = Inl ''index unreachable''"
    by (simp_all add: unreachable_env_def example_env_def)
  have m: "nullish (messages example_body) [] \<noteq> []"
    by (simp add: example_body_def example_nonempty)
  have q: "query_for unreachable_env example_body = Inr ''parties of the contract dispute''"
    by (simp add: trace_defs unreachable_env_def example_defs)
  have 1: "fst (POST unreachable_env) =
             Some (JsonResponse 500 [(''error'', ''index unreachable'')])"
    using failures_reach_catch [OF a f, THEN conjunct2, THEN conjunct2, THEN conjunct2,
        THEN conjunct1, rule_format,
        of example_body "''parties of the contract dispute''" "''index unreachable''"]
      b m t q s w
    by simp
  have 2: "distinct (filter is_call (snd (POST unreachable_env)))"
    using failures_reach_catch [OF a f] by simp
  have a': "auth empty_env = Inr (Some ''user_1'')"
    and b': "req_json empty_env = Inr (example_body\<lparr>messages := Some []\<rparr>)"
    by (simp_all add: empty_env_def example_env_def)
  have m': "nullish (messages (example_body\<lparr>messages := Some []\<rparr>)) [] = []"
    by simp
  have "fst (POST empty_env) = Some (JsonResponse 500 [(''error'', ''No messages provided.'')])"
    using failures_reach_catch [OF a' f, THEN conjunct2, THEN conjunct1, rule_format,
        of "example_body\<lparr>messages := Some []\<rparr>"]
      b' m'
    by simp
  with 1 2 show ?thesis
    by simp
qed

text \<open>Three runs against the claim as it stands. A request without turns and a request
  whose search fails are failures of different kinds, and both are answered with status 500.
  When the failed search is left in the stream instead of rejecting the call of the chain,
  \<open>documentPromise\<close> is never resolved and the handler returns no response. When the answer
  model fails after the first fragment, the handler has returned the streaming response,
  with status 200.\<close>

lemma lazy_unreachable_run: "fst (POST lazy_unreachable_env) = None"
  by (simp add: run_defs lazy_unreachable_env_def unreachable_env_def example_defs)

lemma interrupted_run:
  "fst (POST interrupted_env) =
     Some (StreamingTextResponse (Interrupted [''## Par''] ''model connection lost'')
        [(''x-message-index'', ''4''),
         (''x-sources'', rev (concat (map pageContent (sourceManifest example_docs))))])"
  by (simp add: run_defs interrupted_env_def example_defs)

theorem failures_not_caught_counterexample:
  "map_option status (fst (POST empty_env)) = Some 500 \<and>
   map_option status (fst (POST unreachable_env)) = Some 500 \<and>
   fst (POST empty_env) \<noteq> fst (POST unreachable_env) \<and>
   fst (POST lazy_unreachable_env) = None \<and>
   fst (POST interrupted_env) =
     Some (StreamingTextResponse (Interrupted [''## Par''] ''model connection lost'')
        [(''x-message-index'', ''4''),
         (''x-sources'', rev (concat (map pageContent (sourceManifest example_docs))))]) \<and>
   map_option status (fst (POST interrupted_env)) = Some 200"
  by (simp add: empty_run unreachable_run lazy_unreachable_run interrupted_run)

text \<open>The same two runs for any environment: a failed search, or a failed query rewriting,
  that is left in the stream gives no response; a failure of the answer model that is left
  in the stream gives the streaming response.\<close>

lemma failure_before_retrieval_in_stream_never_returns:
  assumes "auth env = Inr u" and "\<not> falsy u" and "req_json env = Inr b"
    and "nullish (messages b) [] \<noteq> []" and "\<And>ev. throws env ev = None"
    and "query_for env b = Inl e \<or>
         (\<exists>q. query_for env b = Inr q \<and> similaritySearch env (chatId b) q = Inl e)"
    and "\<not> stream_awaits_first_chunk env"
  shows "fst (POST env) = None"
  using assms by (auto simp add: run_defs trace_defs split: if_splits)

lemma failed_synthesis_in_stream_is_streamed:
  assumes "auth env = Inr u" and "\<not> falsy u" and "req_json env = Inr b"
    and "nullish (messages b) [] \<noteq> []" and "\<And>ev. throws env ev = None"
    and "query_for env b = Inr q"
    and "similaritySearch env (chatId b) q = Inr docs"
    and "synthesize env docs (history_of b) (input_of b) = Inl e"
    and "\<not> stream_awaits_first_chunk env"
    and "JSON_stringify env (sourceManifest docs) = Inr json"
    and "toBase64 env json = Inr src"
  shows "fst (POST env) =
           Some (StreamingTextResponse (Interrupted [] e)
             [(''x-message-index'',
               toString (length (formattedPrevious (nullish (messages b) [])) + 1)),
              (''x-sources'', src)])"
  using assms by (simp add: run_defs trace_defs split: if_splits)

section \<open>History and turn index\<close>

text \<open>
  C8. The normalizer maps the turns one by one, in order: none is dropped; a turn tagged
  \<open>user\<close> becomes a human message and one tagged \<open>assistant\<close> an AI message, with the
  content; a turn with any other tag becomes the generic message that keeps the content and
  the tag as they are.
\<close>

theorem history_normalizer:
  "length (map (snd \<circ> formatVercelMessages) turns) = length turns \<and>
   (\<forall>i<length turns.
      (role (turns ! i) = ''user'' \<longrightarrow>
         map (snd \<circ> formatVercelMessages) turns ! i = HumanMessage (content (turns ! i))) \<and>
      (role (turns ! i) = ''assistant'' \<longrightarrow>
         map (snd \<circ> formatVercelMessages) turns ! i = AIMessage (content (turns ! i))) \<and>
      (role (turns ! i) \<noteq> ''user'' \<and> role (turns ! i) \<noteq> ''assistant'' \<longrightarrow>
         map (snd \<circ> formatVercelMessages) turns ! i =
           ChatMessage (content (turns ! i)) (role (turns ! i))))"
  by (simp add: formatVercelMessages_def)

theorem history_normalizer_witness:
  "length (map (snd \<circ> formatVercelMessages) example_messages) = 4 \<and>
   role (example_messages ! 2) = ''system'' \<and>
   map (snd \<circ> formatVercelMessages) example_messages ! 2 = ChatMessage ''Be brief.'' ''system'' \<and>
   map (snd \<circ> formatVercelMessages) example_messages ! 0 =
     HumanMessage ''What is this case about?''"
proof -
  have l: "length example_messages = 4"
    and r2: "role (example_messages ! 2) = ''system''" "content (example_messages ! 2) = ''Be brief.''"
    and r0: "role (example_messages ! 0) = ''user''"
      "content (example_messages ! 0) = ''What is this case about?''"
    by (simp_all add: example_messages_def)
  have ne: "role (example_messages ! 2) \<noteq> ''user'' \<and> role (example_messages ! 2) \<noteq> ''assistant''"
    by (simp add: r2)
  from history_normalizer [of example_messages] l
  have "length (map (snd \<circ> formatVercelMessages) example_messages) = 4"
    and "map (snd \<circ> formatVercelMessages) example_messages ! 2 =
           ChatMessage (content (example_messages ! 2)) (role (example_messages ! 2))"
    and "map (snd \<circ> formatVercelMessages) example_messages ! 0 =
           HumanMessage (content (example_messages ! 0))"
    using ne r0 by auto
  then show ?thesis
    by (simp add: r2 r0)
qed

text \<open>
  C9. On every answer with the streaming response, the \<open>x-message-index\<close> header is the
  decimal numeral of the number of prior turns (all turns but the last) plus one, which is
  the number of turns of the request.
\<close>

theorem message_index:
  assumes "POST env = (Some (StreamingTextResponse s hdrs), tr)"
  shows "\<exists>b msgs.
           req_json env = Inr b \<and> messages b = Some msgs \<and> msgs \<noteq> [] \<and>
           map_of hdrs ''x-message-index'' = Some (toString (length (butlast msgs) + 1)) \<and>
           parseInt (toString (length (butlast msgs) + 1)) = length (butlast msgs) + 1 \<and>
           length (butlast msgs) + 1 = length msgs"
proof -
  from assms obtain b src where
    b: "req_json env = Inr b" and
    ne: "nullish (messages b) [] \<noteq> []" and
    hdrs: "hdrs = [(''x-message-index'',
                    toString (length (formattedPrevious (nullish (messages b) [])) + 1)),
                   (''x-sources'', src)]"
    by (rule POST_streaming_run)
  from ne obtain msgs where msgs: "messages b = Some msgs" "msgs \<noteq> []"
    by (cases "messages b") simp_all
  have "map_of hdrs ''x-message-index'' = Some (toString (length (butlast msgs) + 1))"
    by (simp add: hdrs msgs formattedPrevious_def)
  moreover have "length (butlast msgs) + 1 = length msgs"
    using msgs(2) by (cases msgs) simp_all
  ultimately show ?thesis
    using b msgs parseInt_toString by blast
qed

theorem message_index_witness:
  "\<exists>b msgs.
     req_json example_env = Inr b \<and> messages b = Some msgs \<and> msgs \<noteq> [] \<and>
     map_of [(''x-message-index'', ''4''),
             (''x-sources'', rev (concat (map pageContent (sourceManifest example_docs))))]
       ''x-message-index'' = Some (toString (length (butlast msgs) + 1)) \<and>
     parseInt (toString (length (butlast msgs) + 1)) = length (butlast msgs) + 1 \<and>
     length (butlast msgs) + 1 = length msgs"
proof -
  have "POST example_env =
     (Some (StreamingTextResponse (Fragments [''## Parties'', '' Acme and Bolt''])
        [(''x-message-index'', ''4''),
         (''x-sources'', rev (concat (map pageContent (sourceManifest example_docs))))]),
      snd (POST example_env))"
    by (simp add: example_run)
  then show ?thesis
    by (rule message_index)
qed

section \<open>A request without chatId\<close>

text \<open>
  C10. For a signed-in caller whose body has turns and no \<open>chatId\<close>, when no constructor
  throws, the run goes past the validation: the store and the retriever are built with the
  undefined namespace and the chain is called; the search is made in the undefined
  namespace, for the question itself and with no rewriting call when there is no prior turn,
  for the rewritten query otherwise; and when every collaborator answers, the handler returns
  the streaming response.
\<close>

theorem absent_chatId_proceeds:
  assumes "auth env = Inr u" and "\<not> falsy u" and "req_json env = Inr b"
    and "messages b = Some msgs" and "msgs \<noteq> []" and "chatId b = None"
    and "\<And>ev. throws env ev = None"
  shows "prefix
           ([Auth, ReqJson] @ map ConsoleWarn (concat (map fst (formattedPrevious msgs))) @
            [NewChatTogetherAI, PineconeIndex (nullish (PINECONE_INDEX_NAME env) []),
             NewTogetherAIEmbeddings, FromExistingIndex None, AsRetriever None,
             CreateHistoryAwareRetriever, CreateStuffDocumentsChain, CreateRetrievalChain,
             RunnableSequenceFrom,
             Stream (map snd (formattedPrevious msgs)) (content (last msgs))])
           (snd (POST env)) \<and>
         (butlast msgs = [] \<longrightarrow>
            SimilaritySearch None (content (last msgs)) \<in> set (snd (POST env)) \<and>
            (\<forall>h i. QueryRewriter h i \<notin> set (snd (POST env)))) \<and>
         (\<forall>q. butlast msgs \<noteq> [] \<and>
            rewrite_query env (map snd (formattedPrevious msgs)) (content (last msgs)) = Inr q
            \<longrightarrow> QueryRewriter (map snd (formattedPrevious msgs)) (content (last msgs))
                  \<in> set (snd (POST env)) \<and>
                SimilaritySearch None q \<in> set (snd (POST env))) \<and>
         (\<forall>q docs stream json src.
            query_for env b = Inr q \<and>
            similaritySearch env None q = Inr docs \<and>
            synthesize env docs (map snd (formattedPrevious msgs)) (content (last msgs)) =
              Inr stream \<and>
            JSON_stringify env (sourceManifest docs) = Inr json \<and>
            toBase64 env json = Inr src
            \<longrightarrow> POST env =
                  (Some (StreamingTextResponse stream
                     [(''x-message-index'', toString (length (formattedPrevious msgs) + 1)),
                      (''x-sources'', src)]),
                   complete_trace env b q docs json))"
proof (intro conjI allI impI)
  show "prefix
           ([Auth, ReqJson] @ map ConsoleWarn (concat (map fst (formattedPrevious msgs))) @
            [NewChatTogetherAI, PineconeIndex (nullish (PINECONE_INDEX_NAME env) []),
             NewTogetherAIEmbeddings, FromExistingIndex None, AsRetriever None,
             CreateHistoryAwareRetriever, CreateStuffDocumentsChain, CreateRetrievalChain,
             RunnableSequenceFrom,
             Stream (map snd (formattedPrevious msgs)) (content (last msgs))])
           (snd (POST env))"
    using assms
    by (simp add: run_defs
        split: sum.splits option.splits completion.splits prod.splits)
next
  assume "butlast msgs = []"
  with assms show "SimilaritySearch None (content (last msgs)) \<in> set (snd (POST env))"
    by (simp add: run_defs formattedPrevious_def
        split: sum.splits option.splits completion.splits prod.splits)
next
  fix h i
  assume "butlast msgs = []"
  with assms show "QueryRewriter h i \<notin> set (snd (POST env))"
    by (simp add: run_defs formattedPrevious_def
        split: sum.splits option.splits completion.splits prod.splits)
next
  fix q
  assume "butlast msgs \<noteq> [] \<and>
          rewrite_query env (map snd (formattedPrevious msgs)) (content (last msgs)) = Inr q"
  with assms
  show "QueryRewriter (map snd (formattedPrevious msgs)) (content (last msgs))
          \<in> set (snd (POST env))"
    by (simp add: run_defs formattedPrevious_def
        split: sum.splits option.splits completion.splits prod.splits)
next
  fix q
  assume "butlast msgs \<noteq> [] \<and>
          rewrite_query env (map snd (formattedPrevious msgs)) (content (last msgs)) = Inr q"
  with assms show "SimilaritySearch None q \<in> set (snd (POST env))"
    by (simp add: run_defs formattedPrevious_def
        split: sum.splits option.splits completion.splits prod.splits)
next
  fix q docs stream json src
  assume "query_for env b = Inr q \<and>
          similaritySearch env None q = Inr docs \<and>
          synthesize env docs (map snd (formattedPrevious msgs)) (content (last msgs)) =
            Inr stream \<and>
          JSON_stringify env (sourceManifest docs) = Inr json \<and>
          toBase64 env json = Inr src"
  with assms show "POST env =
                  (Some (StreamingTextResponse stream
                     [(''x-message-index'', toString (length (formattedPrevious msgs) + 1)),
                      (''x-sources'', src)]),
                   complete_trace env b q docs json)"
    by (clarsimp simp add: run_defs trace_defs split: if_splits)
qed

theorem absent_chatId_proceeds_witness:
  "chatId (example_body\<lparr>chatId := None\<rparr>) = None \<and>
   FromExistingIndex None \<in> set (snd (POST no_chatId_env)) \<and>
   QueryRewriter example_history ''Who are the parties?'' \<in> set (snd (POST no_chatId_env)) \<and>
   SimilaritySearch None ''parties of the contract dispute'' \<in> set (snd (POST no_chatId_env)) \<and>
   fst (POST no_chatId_env) =
     Some (StreamingTextResponse (Fragments [''## Parties'', '' Acme and Bolt''])
        [(''x-message-index'', ''4''),
         (''x-sources'', rev (concat (map pageContent (sourceManifest [other_doc]))))]) \<and>
   SimilaritySearch None ''Who are the parties?'' \<in> set (snd (POST first_question_env)) \<and>
   QueryRewriter [] ''Who are the parties?'' \<notin> set (snd (POST first_question_env))"
proof -
  have f: "\<not> falsy (Some ''user_1'')"
    by (simp add: falsy_def)
  have a: "auth no_chatId_env = Inr (Some ''user_1'')"
    and b: "req_json no_chatId_env = Inr (example_body\<lparr>chatId := None\<rparr>)"
    and t: "throws no_chatId_env ev = None" for ev
    by (simp_all add: no_chatId_env_def example_env_def)
  have m: "messages (example_body\<lparr>chatId := None\<rparr>) = Some example_messages"
    by (simp add: example_body_def)
  have c: "chatId (example_body\<lparr>chatId := None\<rparr>) = None"
    by simp
  note run = absent_chatId_proceeds [OF a f b m example_nonempty c t]
  have h: "butlast example_messages \<noteq> []"
    by (simp add: example_messages_def)
  have q: "rewrite_query no_chatId_env (map snd (formattedPrevious example_messages))
             (content (last example_messages)) = Inr ''parties of the contract dispute''"
    "query_for no_chatId_env (example_body\<lparr>chatId := None\<rparr>) =
       Inr ''parties of the contract dispute''"
    by (simp_all add: trace_defs no_chatId_env_def example_defs)
  have rest:
    "similaritySearch no_chatId_env None ''parties of the contract dispute'' = Inr [other_doc]"
    "synthesize no_chatId_env [other_doc] (map snd (formattedPrevious example_messages))
       (content (last example_messages)) = Inr (Fragments [''## Parties'', '' Acme and Bolt''])"
    "JSON_stringify no_chatId_env (sourceManifest [other_doc]) =
       Inr (concat (map pageContent (sourceManifest [other_doc])))"
    "toBase64 no_chatId_env (concat (map pageContent (sourceManifest [other_doc]))) =
       Inr (rev (concat (map pageContent (sourceManifest [other_doc]))))"
    by (simp_all add: no_chatId_env_def example_env_def)
  from run have p: "prefix
           ([Auth, ReqJson] @
            map ConsoleWarn (concat (map fst (formattedPrevious example_messages))) @
            [NewChatTogetherAI, PineconeIndex (nullish (PINECONE_INDEX_NAME no_chatId_env) []),
             NewTogetherAIEmbeddings, FromExistingIndex None, AsRetriever None,
             CreateHistoryAwareRetriever, CreateStuffDocumentsChain, CreateRetrievalChain,
             RunnableSequenceFrom,
             Stream (map snd (formattedPrevious example_messages))
               (content (last example_messages))])
           (snd (POST no_chatId_env))"
    by (rule conjunct1)
  have 1: "FromExistingIndex None \<in> set (snd (POST no_chatId_env))"
    using set_mono_prefix [OF p] by auto
  from run h q(1)
  have 2: "QueryRewriter (map snd (formattedPrevious example_messages))
             (content (last example_messages)) \<in> set (snd (POST no_chatId_env)) \<and>
           SimilaritySearch None ''parties of the contract dispute''
             \<in> set (snd (POST no_chatId_env))"
    by blast
  from run q(2) rest
  have 3: "POST no_chatId_env =
     (Some (StreamingTextResponse (Fragments [''## Parties'', '' Acme and Bolt''])
        [(''x-message-index'', toString (length (formattedPrevious example_messages) + 1)),
         (''x-sources'', rev (concat (map pageContent (sourceManifest [other_doc]))))]),
      complete_trace no_chatId_env (example_body\<lparr>chatId := None\<rparr>)
        ''parties of the contract dispute'' [other_doc]
        (concat (map pageContent (sourceManifest [other_doc]))))"
    by blast
  let ?first = "\<lparr>messages = Some [\<lparr>role = ''user'', content = ''Who are the parties?''\<rparr>],
                 chatId = None\<rparr>"
  have a': "auth first_question_env = Inr (Some ''user_1'')"
    and b': "req_json first_question_env = Inr ?first"
    and t': "throws first_question_env ev = None" for ev
    by (simp_all add: first_question_env_def example_env_def)
  have m': "messages ?first = Some [\<lparr>role = ''user'', content = ''Who are the parties?''\<rparr>]"
    and c': "chatId ?first = None"
    and n': "[\<lparr>role = ''user'', content = ''Who are the parties?''\<rparr>] \<noteq> []"
    and h': "butlast [\<lparr>role = ''user'', content = ''Who are the parties?''\<rparr>] = []"
    by simp_all
  from absent_chatId_proceeds [OF a' f b' m' n' c' t'] h'
  have 4: "SimilaritySearch None
             (content (last [\<lparr>role = ''user'', content = ''Who are the parties?''\<rparr>]))
             \<in> set (snd (POST first_question_env)) \<and>
           QueryRewriter [] ''Who are the parties?'' \<notin> set (snd (POST first_question_env))"
    by blast
  from 1 2 3 4 c show ?thesis
    by (simp add: example_formatted example_last example_history_def toString_4)
qed

end
